theory Spec2Isabelle
  imports Complex_Main "HOL-Library.Word"
begin

unbundle bit_operations_syntax

section \<open>Data model\<close>

text \<open>
  The simulator of \<^verbatim>\<open>compute.hpp\<close> works on an extended stabilizer tableau
  (\<^verbatim>\<open>AGState\<close>) whose rows are Pauli operators in symplectic form. The C++ type
  \<^verbatim>\<open>uint_t\<close> is a 64-bit unsigned integer; \<^verbatim>\<open>size_t\<close> indices and counts are
  natural numbers, and the one place where a \<^verbatim>\<open>size_t\<close> subtraction can wrap is
  written out on 64-bit words. A \<^verbatim>\<open>double\<close> is read as a real number.
\<close>

type_synonym uint_t = "64 word"

text \<open>
  Modelled from the spec: the Pauli row type of \<^verbatim>\<open>simulators/stabilizer/pauli.hpp\<close>,
  which is not part of the sources at hand. A row is a pair of bit-vectors \<open>X\<close>, \<open>Z\<close>;
  the identity row of a given qubit count has all bits clear; row addition is the
  symmetric difference of the bit-vectors (both operands carry one bit per active qubit).
\<close>

record Pauli =
  X :: "bool list"
  Z :: "bool list"

definition Pauli_init :: "nat \<Rightarrow> Pauli" where
  "Pauli_init n = \<lparr>X = replicate n False, Z = replicate n False\<rparr>"

definition bv_add :: "bool list \<Rightarrow> bool list \<Rightarrow> bool list" where
  "bv_add xs ys = map2 (\<lambda>a b. a \<noteq> b) xs ys"

definition Pauli_add :: "Pauli \<Rightarrow> Pauli \<Rightarrow> Pauli" where
  "Pauli_add r g = \<lparr>X = bv_add (X r) (X g), Z = bv_add (Z r) (Z g)\<rparr>"

text \<open>
  Modelled from the spec: \<^verbatim>\<open>resize\<close> of a bit-vector, used to truncate a row to the
  magic qubits; a vector that is too short is padded with clear bits.
\<close>

definition bv_resize :: "nat \<Rightarrow> bool list \<Rightarrow> bool list" where
  "bv_resize t xs = take t xs @ replicate (t - length xs) False"

record AGState =
  num_qubits :: nat
  num_stabilizers :: nat
  table :: "Pauli list"
  magic_phases :: "real list"

text \<open>
  The member functions of \<^verbatim>\<open>AGState\<close> (\<^verbatim>\<open>ag_state.hpp\<close>) and the function
  \<^verbatim>\<open>Pauli::phase_exponent\<close> are called by the code but defined elsewhere; so is the
  constant \<^verbatim>\<open>AG_CHOP_THRESHOLD\<close>. They are parameters of the model. A mutating member
  function is a function on the tableau value; \<^verbatim>\<open>apply_constraints\<close> returns its
  pair together with the tableau it leaves behind. \<^verbatim>\<open>phase_exponent\<close> returns an
  integer that is added to an \<^verbatim>\<open>unsigned char\<close>.
\<close>

record tableau_ops =
  applyX :: "nat \<Rightarrow> AGState \<Rightarrow> AGState"
  applyY :: "nat \<Rightarrow> AGState \<Rightarrow> AGState"
  applyZ :: "nat \<Rightarrow> AGState \<Rightarrow> AGState"
  applyH :: "nat \<Rightarrow> AGState \<Rightarrow> AGState"
  applyS :: "nat \<Rightarrow> AGState \<Rightarrow> AGState"
  applyCX :: "nat \<Rightarrow> nat \<Rightarrow> AGState \<Rightarrow> AGState"
  applyCZ :: "nat \<Rightarrow> nat \<Rightarrow> AGState \<Rightarrow> AGState"
  applySwap :: "nat \<Rightarrow> nat \<Rightarrow> AGState \<Rightarrow> AGState"
  gadgetized_phase_gate :: "nat \<Rightarrow> real \<Rightarrow> AGState \<Rightarrow> AGState"
  apply_constraints :: "nat \<Rightarrow> nat \<Rightarrow> AGState \<Rightarrow> (bool \<times> nat) \<times> AGState"
  apply_T_constraints :: "AGState \<Rightarrow> AGState"
  delete_identity_magic_qubits :: "AGState \<Rightarrow> AGState"
  phase_exponent :: "Pauli \<Rightarrow> Pauli \<Rightarrow> int"
  AG_CHOP_THRESHOLD :: real

text \<open>
  Modelled from the spec: the constant \<^verbatim>\<open>T_ANGLE\<close> (defined with the tableau), the
  canonical T angle \<open>\<pi>/4\<close>; and \<^verbatim>\<open>ONE\<close>, the 64-bit constant 1.
\<close>

definition T_ANGLE :: real where
  "T_ANGLE = pi / 4"

definition ONE :: uint_t where
  "ONE = 1"

section \<open>The Gray-code summation\<close>

definition BinaryToGray :: "uint_t \<Rightarrow> uint_t" where
  "BinaryToGray num = num XOR (drop_bit 1 num)"

text \<open>
  The first loop of \<^verbatim>\<open>compute_algorithm_all_phases_T\<close>: one bit per stabilizer. With
  64 stabilizers or more every bit of the mask is set (a shifted bit beyond the 64th is
  lost).
\<close>

definition full_mask_of :: "AGState \<Rightarrow> uint_t" where
  "full_mask_of state = fold (\<lambda>i fm. fm OR push_bit i ONE) [0..<num_stabilizers state] 0"

text \<open>
  The search for the bit to flip: the first \<open>j\<close> below the number of stabilizers whose
  bit is set in the mask, and 0 when there is none.
\<close>

function find_bit_to_flip :: "uint_t \<Rightarrow> nat \<Rightarrow> nat \<Rightarrow> nat" where
  "find_bit_to_flip m n j =
     (if j < n then (if (drop_bit j m) AND ONE \<noteq> 0 then j else find_bit_to_flip m n (j + 1))
      else 0)"
  by pat_completeness auto
termination
  by (relation "measure (\<lambda>(m, n, j). n - j)") auto

declare find_bit_to_flip.simps [simp del]

text \<open>
  The classification loop over the qubit positions of the running row. The triple is
  \<open>(XCount, YCount, ZCount)\<close>; the loop leaves at the first Z-only position.
\<close>

function weight_scan :: "Pauli \<Rightarrow> nat \<Rightarrow> nat \<Rightarrow> nat \<times> nat \<times> nat \<Rightarrow> nat \<times> nat \<times> nat" where
  "weight_scan row n j (XCount, YCount, ZCount) =
     (if j < n then
        (let XCount' = (if X row ! j \<and> \<not> Z row ! j then XCount + 1 else XCount) in
         if \<not> X row ! j \<and> Z row ! j then (XCount', YCount, ZCount + 1)
         else weight_scan row n (j + 1)
                (XCount', (if X row ! j \<and> Z row ! j then YCount + 1 else YCount), ZCount))
      else (XCount, YCount, ZCount))"
  by pat_completeness auto
termination
  by (relation "measure (\<lambda>(row, n, j, c). n - j)") auto

declare weight_scan.simps [simp del]

text \<open>
  The numbers of X-only and of Y positions (both bits set) among the first \<open>n\<close>
  positions of a row, counted without the loop.
\<close>

definition X_count :: "Pauli \<Rightarrow> nat \<Rightarrow> nat" where
  "X_count row n = length (filter (\<lambda>j. X row ! j \<and> \<not> Z row ! j) [0..<n])"

definition Y_count :: "Pauli \<Rightarrow> nat \<Rightarrow> nat" where
  "Y_count row n = length (filter (\<lambda>j. X row ! j \<and> Z row ! j) [0..<n])"

text \<open>
  What one accumulated row adds to \<open>acc\<close>: nothing when \<open>ZCount\<close> is not 0, and
  otherwise \<open>(1/2)\<close> to the power \<open>(XCount + YCount)/2\<close>, with the sign given by the
  parity of \<open>phase + YCount\<close>.
\<close>

definition row_term :: "8 word \<Rightarrow> Pauli \<Rightarrow> nat \<Rightarrow> real" where
  "row_term phase row n =
     (case weight_scan row n 0 (0, 0, 0) of (XCount, YCount, ZCount) \<Rightarrow>
        if ZCount = 0 then
          (if (unat phase + YCount) mod 2 = 0
           then (1/2) powr (real (XCount + YCount) / 2)
           else - ((1/2) powr (real (XCount + YCount) / 2)))
        else 0)"

text \<open>
  The body of the main loop for one value \<open>msk\<close> of the counter \<^verbatim>\<open>mask\<close>. The loop state is
  \<open>(acc, row, phase)\<close>; \<open>phase\<close> is an \<^verbatim>\<open>unsigned char\<close>.
\<close>

definition gray_step ::
  "tableau_ops \<Rightarrow> AGState \<Rightarrow> uint_t \<Rightarrow> real \<times> Pauli \<times> 8 word \<Rightarrow> real \<times> Pauli \<times> 8 word" where
  "gray_step ops state msk s =
     (case s of (acc, row, phase) \<Rightarrow>
        let mask_with_bit_to_flip = BinaryToGray msk XOR BinaryToGray (msk - 1);
            bit_to_flip = find_bit_to_flip mask_with_bit_to_flip (num_stabilizers state) 0;
            phase' = phase + word_of_int (phase_exponent ops row (table state ! bit_to_flip));
            row' = Pauli_add row (table state ! bit_to_flip)
        in (acc + row_term phase' row' (num_qubits state), row', phase'))"

text \<open>
  The main loop counts \<^verbatim>\<open>mask\<close> up in 64 bits while \<^verbatim>\<open>mask <= full_mask\<close>. When every
  bit of \<open>full_mask\<close> is set the condition never fails and the loop does not return:
  the value is \<open>None\<close>.
\<close>

partial_function (option) gray_loop ::
  "tableau_ops \<Rightarrow> AGState \<Rightarrow> uint_t \<Rightarrow> uint_t \<Rightarrow> real \<times> Pauli \<times> 8 word
     \<Rightarrow> (real \<times> Pauli \<times> 8 word) option" where
  "gray_loop ops state full_mask msk s =
     (if msk \<le> full_mask
      then gray_loop ops state full_mask (msk + 1) (gray_step ops state msk s)
      else Some s)"

definition compute_algorithm_all_phases_T :: "tableau_ops \<Rightarrow> AGState \<Rightarrow> real option" where
  "compute_algorithm_all_phases_T ops state =
     (let full_mask = full_mask_of state in
      case gray_loop ops state full_mask 1 (1, Pauli_init (num_qubits state), 0) of
        None \<Rightarrow> None
      | Some (acc, row, phase) \<Rightarrow> Some (if full_mask = 0 then 1 else acc))"

text \<open>
  The product of the generator rows selected by the set bits of \<open>g\<close>, computed from
  scratch in index order; and the loop state after the masks \<open>1, \<dots>, m\<close> have been
  processed. Both are used to state what the loop maintains.
\<close>

definition select_rows :: "Pauli list \<Rightarrow> uint_t \<Rightarrow> nat list \<Rightarrow> Pauli \<Rightarrow> Pauli" where
  "select_rows T g js r = fold (\<lambda>i r. if bit g i then Pauli_add r (T ! i) else r) js r"

definition selected_product :: "AGState \<Rightarrow> uint_t \<Rightarrow> Pauli" where
  "selected_product state g =
     select_rows (table state) g [0..<num_stabilizers state] (Pauli_init (num_qubits state))"

definition after_mask :: "tableau_ops \<Rightarrow> AGState \<Rightarrow> nat \<Rightarrow> real \<times> Pauli \<times> 8 word" where
  "after_mask ops state m =
     fold (\<lambda>i. gray_step ops state (of_nat i)) [1..<Suc m] (1, Pauli_init (num_qubits state), 0)"

text \<open>
  The invariant of the tableau: one row per stabilizer, every row with one \<open>X\<close> and one
  \<open>Z\<close> bit per active qubit.
\<close>

definition row_ok :: "nat \<Rightarrow> Pauli \<Rightarrow> bool" where
  "row_ok n r = (length (X r) = n \<and> length (Z r) = n)"

definition tableau_ok :: "AGState \<Rightarrow> bool" where
  "tableau_ok state =
     (length (table state) = num_stabilizers state \<and>
      list_all (row_ok (num_qubits state)) (table state))"

section \<open>The probability of an outcome\<close>

text \<open>
  The first loop of \<^verbatim>\<open>compute_probability\<close>. For the \<open>i\<close>-th smallest measured qubit
  \<open>w\<close> it looks up the first position \<open>idx\<close> of \<open>w\<close> in the caller's list (0 when
  there is none) and swaps \<open>w\<close> with \<open>idx\<close> when the caller's \<open>i\<close>-th entry is not \<open>i\<close>.
\<close>

definition find_idx :: "nat list \<Rightarrow> nat \<Rightarrow> nat" where
  "find_idx measured_qubits w =
     (case find (\<lambda>j. measured_qubits ! j = w) [0..<length measured_qubits] of
        Some j \<Rightarrow> j | None \<Rightarrow> 0)"

definition reorder_step ::
  "tableau_ops \<Rightarrow> nat list \<Rightarrow> nat list \<Rightarrow> nat \<Rightarrow> AGState \<Rightarrow> AGState" where
  "reorder_step ops measured_qubits measured_qubits_sorted i copied_ag =
     (let w = measured_qubits_sorted ! i;
          idx = find_idx measured_qubits w
      in if measured_qubits ! i \<noteq> i then applySwap ops w idx copied_ag else copied_ag)"

definition reorder_measured :: "tableau_ops \<Rightarrow> nat list \<Rightarrow> AGState \<Rightarrow> AGState" where
  "reorder_measured ops measured_qubits copied_ag =
     fold (reorder_step ops measured_qubits (sort measured_qubits))
       [0..<length measured_qubits] copied_ag"

text \<open>The second loop: an X on position \<open>i\<close> for every outcome \<open>i\<close> that is 1.\<close>

definition normalize_outcomes :: "tableau_ops \<Rightarrow> nat list \<Rightarrow> AGState \<Rightarrow> AGState" where
  "normalize_outcomes ops outcomes copied_ag =
     fold (\<lambda>i c. if outcomes ! i = 1 then applyX ops i c else c) [0..<length outcomes] copied_ag"

text \<open>
  The isolation of the magic qubits: \<open>t\<close> swaps, the truncation of every stabilizer row
  to \<open>t\<close> bits, and the new qubit count.
\<close>

definition truncate_row :: "nat \<Rightarrow> nat \<Rightarrow> AGState \<Rightarrow> AGState" where
  "truncate_row t s c =
     c\<lparr>table := (table c)[s := \<lparr>X = bv_resize t (X (table c ! s)),
                                 Z = bv_resize t (Z (table c ! s))\<rparr>]\<rparr>"

definition isolate_magic :: "tableau_ops \<Rightarrow> nat \<Rightarrow> AGState \<Rightarrow> AGState" where
  "isolate_magic ops t copied_ag =
     (let c1 = fold (\<lambda>q c. applySwap ops q (q + t) c) [0..<t] copied_ag;
          c2 = fold (truncate_row t) [0..<num_stabilizers c1] c1
      in c2\<lparr>num_qubits := t\<rparr>)"

text \<open>
  The test of the phases: the flag stays true unless some phase of an active qubit is
  further than the threshold from \<open>T_ANGLE\<close>.
\<close>

definition all_phases_are_T :: "tableau_ops \<Rightarrow> AGState \<Rightarrow> bool" where
  "all_phases_are_T ops copied_ag =
     list_all (\<lambda>i. \<not> \<bar>magic_phases copied_ag ! i - T_ANGLE\<bar> > AG_CHOP_THRESHOLD ops)
       [0..<num_qubits copied_ag]"

text \<open>
  The three \<^verbatim>\<open>return\<close> statements of \<^verbatim>\<open>compute_probability\<close>: after a failed
  constraint, with no magic qubit left, and after the summation.
\<close>

datatype return_site = Return_unsatisfiable | Return_no_magic | Return_summation

text \<open>
  Modelled from the spec: the copy constructor of \<^verbatim>\<open>AGState\<close>, which is declared with
  the tableau and not in the sources at hand. The tableau is a value type whose copy
  is deep: bit-vectors and phase list are copied.
\<close>

definition AGState_copy :: "AGState \<Rightarrow> AGState" where
  "AGState_copy a = a"

text \<open>
  The two tableaux that exist during a call of \<^verbatim>\<open>compute_probability\<close>: the tableau
  \<^verbatim>\<open>qreg_\<close> of the simulator state and the local \<^verbatim>\<open>copied_ag\<close>. A member function
  called on \<^verbatim>\<open>copied_ag\<close> updates the second one.
\<close>

record frame =
  this_qreg :: AGState
  the_copy :: AGState

definition on_copy :: "(AGState \<Rightarrow> AGState) \<Rightarrow> frame \<Rightarrow> frame" where
  "on_copy f fr = fr\<lparr>the_copy := f (the_copy fr)\<rparr>"

text \<open>
  The body of \<^verbatim>\<open>compute_probability\<close> after the copy has been made, statement by
  statement, with the return statement it leaves by and the two tableaux it leaves
  behind. The first exponent is the difference of two doubles; the second is the
  difference \<^verbatim>\<open>v - w\<close> of two \<^verbatim>\<open>size_t\<close>, taken in 64 bits before it is converted.
  The value is \<open>None\<close> when the summation does not return.
\<close>

definition compute_probability_body ::
  "tableau_ops \<Rightarrow> nat list \<Rightarrow> nat list \<Rightarrow> frame \<Rightarrow> (return_site \<times> real option) \<times> frame" where
  "compute_probability_body ops measured_qubits outcomes fr =
     (let fr = on_copy (reorder_measured ops measured_qubits) fr;
          fr = on_copy (normalize_outcomes ops outcomes) fr;
          w = length measured_qubits;
          t = length (magic_phases (the_copy fr));
          v_pair = fst (apply_constraints ops w t (the_copy fr));
          fr = on_copy (\<lambda>c. snd (apply_constraints ops w t c)) fr
      in if \<not> fst v_pair then ((Return_unsatisfiable, Some 0), fr)
         else
          (let v = snd v_pair;
               fr = on_copy (isolate_magic ops t) fr;
               fr = on_copy (apply_T_constraints ops) fr;
               fr = on_copy (delete_identity_magic_qubits ops) fr;
               all_T = all_phases_are_T ops (the_copy fr)
           in if num_qubits (the_copy fr) = 0
              then ((Return_no_magic, Some (2 powr (real v - real w))), fr)
              else ((Return_summation,
                     map_option
                       (\<lambda>acc. acc * 2 powr real (unat (word_of_nat v - word_of_nat w :: 64 word)))
                       (compute_algorithm_all_phases_T ops (the_copy fr))), fr)))"

text \<open>
  The return statement and the value of a query on the tableau \<open>a\<close> of the simulator.
\<close>

definition compute_probability_at ::
  "tableau_ops \<Rightarrow> AGState \<Rightarrow> nat list \<Rightarrow> nat list \<Rightarrow> return_site \<times> real option" where
  "compute_probability_at ops a measured_qubits outcomes =
     fst (compute_probability_body ops measured_qubits outcomes
            \<lparr>this_qreg = a, the_copy = AGState_copy a\<rparr>)"

text \<open>
  Names for the intermediate tableaux of a query: the copy handed to the constraint
  solver, the answer of the solver, and the copy after isolation and cleanup.
\<close>

definition prepared :: "tableau_ops \<Rightarrow> AGState \<Rightarrow> nat list \<Rightarrow> nat list \<Rightarrow> AGState" where
  "prepared ops copied_ag measured_qubits outcomes =
     normalize_outcomes ops outcomes (reorder_measured ops measured_qubits copied_ag)"

definition solved ::
  "tableau_ops \<Rightarrow> AGState \<Rightarrow> nat list \<Rightarrow> nat list \<Rightarrow> (bool \<times> nat) \<times> AGState" where
  "solved ops copied_ag measured_qubits outcomes =
     (let c = prepared ops copied_ag measured_qubits outcomes
      in apply_constraints ops (length measured_qubits) (length (magic_phases c)) c)"

definition residual :: "tableau_ops \<Rightarrow> AGState \<Rightarrow> nat list \<Rightarrow> nat list \<Rightarrow> AGState" where
  "residual ops copied_ag measured_qubits outcomes =
     (let c = prepared ops copied_ag measured_qubits outcomes;
          t = length (magic_phases c)
      in delete_identity_magic_qubits ops
           (apply_T_constraints ops
              (isolate_magic ops t (snd (solved ops copied_ag measured_qubits outcomes)))))"

text \<open>
  The simulator state: the tableau \<^verbatim>\<open>qreg_\<close> and the number of code qubits. The
  member function \<^verbatim>\<open>compute_probability\<close> copies the tableau, runs its body and returns
  the probability together with the state it leaves behind.
\<close>

record State =
  qreg :: AGState
  num_code_qubits :: nat

definition compute_probability ::
  "tableau_ops \<Rightarrow> State \<Rightarrow> nat list \<Rightarrow> nat list \<Rightarrow> real option \<times> State" where
  "compute_probability ops this measured_qubits outcomes =
     (let fr = \<lparr>this_qreg = qreg this, the_copy = AGState_copy (qreg this)\<rparr>;
          (r, fr') = compute_probability_body ops measured_qubits outcomes fr
      in (snd r, this\<lparr>qreg := this_qreg fr'\<rparr>))"

section \<open>The gate translator\<close>

datatype Gates =
  Gates_id | Gates_x | Gates_y | Gates_z | Gates_h | Gates_s | Gates_sdg | Gates_sx
  | Gates_t | Gates_tdg | Gates_cx | Gates_cz | Gates_swap

definition gateset :: "string \<rightharpoonup> Gates" where
  "gateset = map_of
     [(''delay'', Gates_id), (''id'', Gates_id), (''x'', Gates_x), (''y'', Gates_y),
      (''z'', Gates_z), (''s'', Gates_s), (''sdg'', Gates_sdg), (''h'', Gates_h),
      (''t'', Gates_t), (''tdg'', Gates_tdg), (''CX'', Gates_cx), (''cx'', Gates_cx),
      (''CZ'', Gates_cz), (''cz'', Gates_cz), (''swap'', Gates_swap)]"

text \<open>The gate names of the advertised set of instructions \<^verbatim>\<open>StateOpSet\<close>.\<close>

definition StateOpSet_gates :: "string list" where
  "StateOpSet_gates =
     [''CX'', ''cx'', ''cz'', ''swap'', ''id'', ''x'', ''y'', ''z'', ''h'', ''s'', ''sdg'', ''t'']"

record Op =
  name :: string
  qubits :: "nat list"

datatype error = invalid_argument string

text \<open>
  \<^verbatim>\<open>apply_gate\<close>: the result of the call and the state after it. The trace at the
  entry of the function reads \<^verbatim>\<open>op.qubits[0]\<close> before the name is looked up, and the
  two-qubit gates read \<^verbatim>\<open>op.qubits[1]\<close>. A read outside the list of qubits is
  undefined in the source: the call then has no result, which is the value \<open>None\<close>.
  What the trace prints is not part of the state.
\<close>

definition apply_gate ::
  "tableau_ops \<Rightarrow> State \<Rightarrow> Op \<Rightarrow> ((error + unit) \<times> State) option" where
  "apply_gate ops this oper =
     (if qubits oper = [] then None
      else
       (case gateset (name oper) of
          None \<Rightarrow>
            Some (Inl (invalid_argument
                        (''Compute::State: Invalid gate operation '' @ [CHR 0x27] @ name oper
                           @ [CHR 0x27] @ ''.'')), this)
        | Some g \<Rightarrow>
            if (g = Gates_cx \<or> g = Gates_cz \<or> g = Gates_swap) \<and> length (qubits oper) < 2
            then None
            else
             Some (Inr (),
               this\<lparr>qreg :=
                 (case g of
                    Gates_id \<Rightarrow> qreg this
                  | Gates_x \<Rightarrow> applyX ops (qubits oper ! 0) (qreg this)
                  | Gates_y \<Rightarrow> applyY ops (qubits oper ! 0) (qreg this)
                  | Gates_z \<Rightarrow> applyZ ops (qubits oper ! 0) (qreg this)
                  | Gates_s \<Rightarrow> applyS ops (qubits oper ! 0) (qreg this)
                  | Gates_sdg \<Rightarrow>
                      applyS ops (qubits oper ! 0) (applyZ ops (qubits oper ! 0) (qreg this))
                  | Gates_h \<Rightarrow> applyH ops (qubits oper ! 0) (qreg this)
                  | Gates_t \<Rightarrow> gadgetized_phase_gate ops (qubits oper ! 0) T_ANGLE (qreg this)
                  | Gates_tdg \<Rightarrow>
                      gadgetized_phase_gate ops (qubits oper ! 0) (- T_ANGLE) (qreg this)
                  | Gates_cx \<Rightarrow> applyCX ops (qubits oper ! 0) (qubits oper ! 1) (qreg this)
                  | Gates_cz \<Rightarrow> applyCZ ops (qubits oper ! 0) (qubits oper ! 1) (qreg this)
                  | Gates_swap \<Rightarrow>
                      applySwap ops (qubits oper ! 0) (qubits oper ! 1) (qreg this)
                  | Gates_sx \<Rightarrow> qreg this)\<rparr>)))"

section \<open>A concrete tableau component\<close>

text \<open>
  An instance of the parameters on which the definitions can be evaluated: every gate
  leaves the tableau as it is, the constraint solver answers \<open>(ok, v)\<close>, the phase
  exponent of two rows is 0 and the threshold is \<open>1 / 10 ^ 10\<close>.
\<close>

definition idle_ops :: "bool \<Rightarrow> nat \<Rightarrow> tableau_ops" where
  "idle_ops ok v =
     \<lparr>applyX = (\<lambda>q c. c), applyY = (\<lambda>q c. c), applyZ = (\<lambda>q c. c), applyH = (\<lambda>q c. c),
      applyS = (\<lambda>q c. c), applyCX = (\<lambda>q r c. c), applyCZ = (\<lambda>q r c. c),
      applySwap = (\<lambda>q r c. c), gadgetized_phase_gate = (\<lambda>q a c. c),
      apply_constraints = (\<lambda>w t c. ((ok, v), c)),
      apply_T_constraints = (\<lambda>c. c), delete_identity_magic_qubits = (\<lambda>c. c),
      phase_exponent = (\<lambda>r g. 0), AG_CHOP_THRESHOLD = 1 / 10 ^ 10\<rparr>"

text \<open>Tableaux for explicit inputs: one and two magic qubits, and one qubit without magic.\<close>

definition one_magic_qubit :: "real \<Rightarrow> AGState" where
  "one_magic_qubit phi =
     \<lparr>num_qubits = 1, num_stabilizers = 1, table = [\<lparr>X = [True], Z = [False]\<rparr>],
      magic_phases = [phi]\<rparr>"

definition two_magic_qubits :: AGState where
  "two_magic_qubits =
     \<lparr>num_qubits = 2, num_stabilizers = 2,
      table = [\<lparr>X = [True, False], Z = [False, False]\<rparr>, \<lparr>X = [False, True], Z = [False, True]\<rparr>],
      magic_phases = [T_ANGLE, T_ANGLE]\<rparr>"

definition one_plain_qubit :: AGState where
  "one_plain_qubit =
     \<lparr>num_qubits = 1, num_stabilizers = 1, table = [\<lparr>X = [False], Z = [True]\<rparr>],
      magic_phases = []\<rparr>"

text \<open>
  A second instance, in which \<^verbatim>\<open>applySwap\<close> exchanges two columns of the table; and
  a tableau of one code qubit (position 0, stabilized by Z) and one magic qubit
  (position 1, stabilized by X) with the phase \<open>phi\<close>.
\<close>

definition swap_bits :: "nat \<Rightarrow> nat \<Rightarrow> bool list \<Rightarrow> bool list" where
  "swap_bits q r xs = xs[q := xs ! r, r := xs ! q]"

definition swap_columns :: "nat \<Rightarrow> nat \<Rightarrow> AGState \<Rightarrow> AGState" where
  "swap_columns q r c =
     c\<lparr>table := map (\<lambda>row. \<lparr>X = swap_bits q r (X row), Z = swap_bits q r (Z row)\<rparr>) (table c)\<rparr>"

definition column_ops :: "bool \<Rightarrow> nat \<Rightarrow> tableau_ops" where
  "column_ops ok v = (idle_ops ok v)\<lparr>applySwap := swap_columns\<rparr>"

definition code_and_magic :: "real \<Rightarrow> AGState" where
  "code_and_magic phi =
     \<lparr>num_qubits = 2, num_stabilizers = 2,
      table = [\<lparr>X = [False, False], Z = [True, False]\<rparr>, \<lparr>X = [False, True], Z = [False, False]\<rparr>],
      magic_phases = [phi]\<rparr>"

definition magic_alone :: "real \<Rightarrow> AGState" where
  "magic_alone phi =
     \<lparr>num_qubits = 1, num_stabilizers = 2,
      table = [\<lparr>X = [False], Z = [False]\<rparr>, \<lparr>X = [True], Z = [False]\<rparr>],
      magic_phases = [phi]\<rparr>"

section \<open>Gray code: consecutive codes differ in one bit\<close>

lemma xor_double_odd_nat: "(2 * n) XOR (1 + 2 * m) = 1 + 2 * (n XOR m)" for n m :: nat
  by (subst xor_rec) simp

lemma xor_half_nat: "(a XOR b) div 2 = a div 2 XOR b div 2" for a b :: nat
  by (subst xor_rec [of a b]) simp

lemma xor_odd_shift_nat: "odd e \<Longrightarrow> (1 + 2 * e) XOR e = 2 * (e XOR (e div 2))" for e :: nat
  by (subst xor_rec) simp

lemma xor_cancel_nat: "a XOR (a XOR b) = b" for a b :: nat
  by (simp flip: xor.assoc)

lemma gray_diff_nat:
  "0 < n \<Longrightarrow> \<exists>k. (n XOR n div 2) XOR ((n - 1) XOR (n - 1) div 2) = (2::nat) ^ k \<and> 2 ^ k \<le> n"
proof (induction n rule: nat_bit_induct)
  case zero
  then show ?case by simp
next
  case (even n)
  then obtain k where
    k: "(n XOR n div 2) XOR ((n - 1) XOR (n - 1) div 2) = (2::nat) ^ k" "2 ^ k \<le> n"
    by auto
  define e where "e = n XOR (n - 1)"
  have oe: "odd e" unfolding e_def using even.hyps by (simp add: even_xor_iff)
  have "(n XOR n div 2) XOR ((n - 1) XOR (n - 1) div 2) = e XOR (n div 2 XOR (n - 1) div 2)"
    unfolding e_def by (simp add: ac_simps)
  also have "\<dots> = e XOR e div 2" unfolding e_def by (simp add: xor_half_nat)
  finally have ek: "e XOR e div 2 = 2 ^ k" using k by simp
  have d: "2 * n - 1 = 1 + 2 * (n - 1)" using even.hyps by simp
  have "(2 * n XOR (2 * n) div 2) XOR ((2 * n - 1) XOR (2 * n - 1) div 2)
        = (2 * n XOR (1 + 2 * (n - 1))) XOR (n XOR (n - 1))"
    unfolding d by (simp add: ac_simps)
  also have "\<dots> = (1 + 2 * e) XOR e" unfolding e_def by (simp only: xor_double_odd_nat)
  also have "\<dots> = 2 * (e XOR e div 2)" using oe by (rule xor_odd_shift_nat)
  also have "\<dots> = 2 ^ Suc k" using ek by simp
  finally have "(2 * n XOR (2 * n) div 2) XOR ((2 * n - 1) XOR (2 * n - 1) div 2) = 2 ^ Suc k" .
  moreover have "(2::nat) ^ Suc k \<le> 2 * n" using k by simp
  ultimately show ?case by blast
next
  case (odd n)
  have "(1 + 2 * n XOR (1 + 2 * n) div 2) XOR ((1 + 2 * n - 1) XOR (1 + 2 * n - 1) div 2)
        = ((1 + 2 * n) XOR (2 * n)) XOR (n XOR n)"
    by (simp add: ac_simps xor_cancel_nat)
  also have "\<dots> = 2 ^ 0"
    by (subst xor_rec) simp
  finally show ?case by (intro exI[of _ 0]) simp
qed

lemma BinaryToGray_unat: "unat (BinaryToGray m) = unat m XOR unat m div 2"
  by (simp add: BinaryToGray_def unsigned_xor_eq unat_drop_bit_eq drop_bit_eq_div unat_div)

lemma BinaryToGray_flip:
  assumes "msk \<noteq> 0"
  shows "\<exists>k. BinaryToGray msk XOR BinaryToGray (msk - 1) = 2 ^ k \<and> 2 ^ k \<le> unat msk \<and> k < 64"
proof -
  have pos: "0 < unat msk" using assms by (simp add: unat_gt_0)
  from gray_diff_nat [OF pos] obtain k where
    k: "(unat msk XOR unat msk div 2) XOR ((unat msk - 1) XOR (unat msk - 1) div 2) = 2 ^ k"
    and le: "2 ^ k \<le> unat msk" by blast
  have "unat msk < 2 ^ 64" using unsigned_less [of msk] by simp
  with le have "(2::nat) ^ k < 2 ^ 64" by linarith
  then have k64: "k < 64" using power_less_imp_less_exp [of 2 k 64] by simp
  have u: "unat (BinaryToGray msk XOR BinaryToGray (msk - 1)) = 2 ^ k"
    using k assms by (simp add: unsigned_xor_eq BinaryToGray_unat unat_minus_one)
  have "BinaryToGray msk XOR BinaryToGray (msk - 1)
          = word_of_nat (unat (BinaryToGray msk XOR BinaryToGray (msk - 1)))"
    by simp
  also have "\<dots> = 2 ^ k" by (simp only: u) simp
  finally have "BinaryToGray msk XOR BinaryToGray (msk - 1) = 2 ^ k" .
  with le k64 show ?thesis by blast
qed

section \<open>The loops of the summation\<close>

lemma full_mask_of_eq: "full_mask_of state = mask (num_stabilizers state)"
proof -
  have "fold (\<lambda>i fm. fm OR push_bit i ONE) [0..<n] 0 = (mask n :: uint_t)" for n
    by (induction n) (simp_all add: ONE_def mask_Suc_exp ac_simps)
  then show ?thesis by (simp add: full_mask_of_def)
qed

lemma unat_full_mask:
  "num_stabilizers state < 64 \<Longrightarrow> unat (full_mask_of state) = 2 ^ num_stabilizers state - 1"
proof -
  assume n: "num_stabilizers state < 64"
  have "uint (mask (num_stabilizers state) :: uint_t) = 2 ^ num_stabilizers state - 1"
    using n by (simp only: uint_mask_eq) (simp add: min_def mask_eq_exp_minus_1)
  then have "unat (mask (num_stabilizers state) :: uint_t) = nat (2 ^ num_stabilizers state - 1)"
    by (simp add: unat_eq_nat_uint)
  also have "\<dots> = 2 ^ num_stabilizers state - 1"
    by (simp add: nat_diff_distrib nat_power_eq)
  finally show ?thesis by (simp add: full_mask_of_eq)
qed

lemma full_mask_not_max: "num_stabilizers state < 64 \<Longrightarrow> full_mask_of state \<noteq> - 1"
proof
  assume n: "num_stabilizers state < 64" and "full_mask_of state = - 1"
  then have "bit (mask (num_stabilizers state) :: uint_t) 63" by (simp add: full_mask_of_eq)
  with n show False by (simp add: bit_mask_iff)
qed

lemma bit_test: "(drop_bit j m AND ONE \<noteq> 0) = bit m j" for m :: uint_t
  by (simp add: ONE_def and_one_eq bit_iff_odd_drop_bit mod_2_eq_odd)

lemma find_bit_to_flip_exp:
  "k < n \<Longrightarrow> k < 64 \<Longrightarrow> j \<le> k \<Longrightarrow> find_bit_to_flip (2 ^ k) n j = k"
proof (induction "k - j" arbitrary: j)
  case 0
  then show ?case by (subst find_bit_to_flip.simps) (simp add: bit_test bit_exp_iff)
next
  case (Suc d)
  then have "j < k" by simp
  with Suc show ?case by (subst find_bit_to_flip.simps) (simp add: bit_test bit_exp_iff)
qed

lemma bit_to_flip_in_range:
  assumes "num_stabilizers state < 64" "msk \<noteq> 0" "msk \<le> full_mask_of state"
  shows "\<exists>k < num_stabilizers state.
           BinaryToGray msk XOR BinaryToGray (msk - 1) = 2 ^ k \<and>
           find_bit_to_flip (BinaryToGray msk XOR BinaryToGray (msk - 1)) (num_stabilizers state) 0 = k"
proof -
  from BinaryToGray_flip [OF assms(2)] obtain k where
    k: "BinaryToGray msk XOR BinaryToGray (msk - 1) = 2 ^ k" "2 ^ k \<le> unat msk" "k < 64"
    by blast
  have "unat msk \<le> 2 ^ num_stabilizers state - 1"
    using assms(1,3) by (simp add: word_le_nat_alt unat_full_mask)
  with k(2) have "(2::nat) ^ k \<le> 2 ^ num_stabilizers state - 1" by (rule order_trans)
  then have "(2::nat) ^ k < 2 ^ num_stabilizers state"
    by (metis Suc_pred' less_Suc_eq_le pos2 zero_less_power One_nat_def diff_Suc_1 Suc_diff_1)
  then have kn: "k < num_stabilizers state" using power_less_imp_less_exp [of 2] by simp
  then have "find_bit_to_flip (2 ^ k) (num_stabilizers state) 0 = k"
    using k(3) by (intro find_bit_to_flip_exp) simp_all
  with k(1) kn show ?thesis by auto
qed

lemma gray_loop_fold:
  assumes "fm \<noteq> - 1"
  shows "unat msk \<le> Suc (unat fm) \<Longrightarrow>
         gray_loop ops state fm msk s =
           Some (fold (\<lambda>i. gray_step ops state (of_nat i)) [unat msk..<Suc (unat fm)] s)"
proof (induction "Suc (unat fm) - unat msk" arbitrary: msk s)
  case 0
  then have "unat msk = Suc (unat fm)" by simp
  then have "\<not> msk \<le> fm" by (simp add: word_le_nat_alt)
  then show ?case using 0 by (subst gray_loop.simps) simp
next
  case (Suc d)
  then have lt: "unat msk \<le> unat fm" by simp
  then have le: "msk \<le> fm" by (simp add: word_le_nat_alt)
  have "msk \<noteq> - 1"
  proof
    assume "msk = - 1"
    with le have "fm = - 1" by (simp add: word_order.extremum_unique)
    with assms show False by simp
  qed
  then have "1 + msk \<noteq> 0" by (simp add: add_eq_0_iff)
  then have "unat (1 + msk) = Suc (unat msk)" by (rule unatSuc)
  then have u: "unat (msk + 1) = Suc (unat msk)" by (simp add: add.commute)
  have d: "d = Suc (unat fm) - unat (msk + 1)" using Suc.hyps(2) u by simp
  have b: "unat (msk + 1) \<le> Suc (unat fm)" using lt u by simp
  have "gray_loop ops state fm msk s = gray_loop ops state fm (msk + 1) (gray_step ops state msk s)"
    using le by (subst gray_loop.simps) simp
  also have "\<dots> = Some (fold (\<lambda>i. gray_step ops state (of_nat i))
                         [unat (msk + 1)..<Suc (unat fm)] (gray_step ops state msk s))"
    by (rule Suc.hyps(1) [OF d b])
  also have "\<dots> = Some (fold (\<lambda>i. gray_step ops state (of_nat i)) [unat msk..<Suc (unat fm)] s)"
  proof -
    have "[unat msk..<Suc (unat fm)] = unat msk # [Suc (unat msk)..<Suc (unat fm)]"
      using lt by (intro upt_conv_Cons) simp
    then show ?thesis by (simp add: u del: upt_Suc)
  qed
  finally show ?case .
qed

lemma gray_loop_after_mask:
  assumes "num_stabilizers state < 64"
  shows "gray_loop ops state (full_mask_of state) 1 (1, Pauli_init (num_qubits state), 0)
           = Some (after_mask ops state (unat (full_mask_of state)))"
  using gray_loop_fold [OF full_mask_not_max [OF assms], of 1 ops state]
  by (simp add: after_mask_def)

text \<open>With fewer than 64 stabilizers the summation returns.\<close>

lemma compute_algorithm_all_phases_T_returns:
  assumes "num_stabilizers state < 64"
  shows "compute_algorithm_all_phases_T ops state =
           Some (if full_mask_of state = 0 then 1
                 else fst (after_mask ops state (unat (full_mask_of state))))"
  by (simp add: compute_algorithm_all_phases_T_def gray_loop_after_mask [OF assms]
        split: prod.splits)

section \<open>Row addition and the selected product\<close>

lemma bv_add_length: "length xs = n \<Longrightarrow> length ys = n \<Longrightarrow> length (bv_add xs ys) = n"
  by (simp add: bv_add_def)

lemma bv_add_cancel: "length xs = length ys \<Longrightarrow> bv_add (bv_add xs ys) ys = xs"
  by (rule nth_equalityI) (auto simp: bv_add_def)

lemma bv_add_right_commute: "bv_add (bv_add xs ys) zs = bv_add (bv_add xs zs) ys"
  by (rule nth_equalityI) (auto simp: bv_add_def)

lemma Pauli_add_ok: "row_ok n r \<Longrightarrow> row_ok n a \<Longrightarrow> row_ok n (Pauli_add r a)"
  by (simp add: row_ok_def Pauli_add_def bv_add_length)

lemma Pauli_add_cancel: "row_ok n r \<Longrightarrow> row_ok n a \<Longrightarrow> Pauli_add (Pauli_add r a) a = r"
  by (simp add: row_ok_def Pauli_add_def bv_add_cancel)

lemma Pauli_add_right_commute: "Pauli_add (Pauli_add r a) b = Pauli_add (Pauli_add r b) a"
  by (simp add: Pauli_add_def bv_add_right_commute)

lemma Pauli_init_ok: "row_ok n (Pauli_init n)"
  by (simp add: row_ok_def Pauli_init_def)

lemma select_rows_Nil: "select_rows T g [] r = r"
  by (simp add: select_rows_def)

lemma select_rows_Cons:
  "select_rows T g (i # js) r = select_rows T g js (if bit g i then Pauli_add r (T ! i) else r)"
  by (simp add: select_rows_def)

lemma select_rows_add:
  "select_rows T g js (Pauli_add r a) = Pauli_add (select_rows T g js r) a"
proof (induction js arbitrary: r)
  case Nil
  show ?case by (simp add: select_rows_Nil)
next
  case (Cons i js)
  have "Pauli_add (Pauli_add r a) (T ! i) = Pauli_add (Pauli_add r (T ! i)) a"
    by (rule Pauli_add_right_commute)
  then show ?case using Cons.IH by (simp add: select_rows_Cons)
qed

lemma select_rows_ok:
  "row_ok n r \<Longrightarrow> \<forall>i \<in> set js. row_ok n (T ! i) \<Longrightarrow> row_ok n (select_rows T g js r)"
  by (induction js arbitrary: r) (simp_all add: select_rows_Nil select_rows_Cons Pauli_add_ok)

lemma bit_xor_exp: "k < 64 \<Longrightarrow> bit (g XOR 2 ^ k) i = (bit g i \<noteq> (i = k))" for g :: uint_t
  by (auto simp: bit_xor_iff bit_exp_iff)

lemma select_rows_other:
  "k < 64 \<Longrightarrow> k \<notin> set js \<Longrightarrow> select_rows T (g XOR 2 ^ k) js r = select_rows T g js r"
  by (induction js arbitrary: r) (auto simp: select_rows_Nil select_rows_Cons bit_xor_exp)

lemma select_rows_zero: "select_rows T 0 js r = r"
  by (induction js) (simp_all add: select_rows_Nil select_rows_Cons)

text \<open>Flipping the bit \<open>k\<close> of the selection adds the row \<open>k\<close> to the product.\<close>

lemma select_rows_toggle:
  "k < 64 \<Longrightarrow> k \<in> set js \<Longrightarrow> distinct js \<Longrightarrow> row_ok n r \<Longrightarrow>
   \<forall>i \<in> set js. row_ok n (T ! i) \<Longrightarrow>
   select_rows T (g XOR 2 ^ k) js r = Pauli_add (select_rows T g js r) (T ! k)"
proof (induction js arbitrary: r)
  case Nil
  then show ?case by simp
next
  case (Cons i js)
  have Ti: "row_ok n (T ! i)" using Cons.prems by simp
  show ?case
  proof (cases "i = k")
    case True
    then have notin: "k \<notin> set js" using Cons.prems by simp
    have okf: "row_ok n (select_rows T g js r)"
      using Cons.prems by (intro select_rows_ok) simp_all
    have other: "select_rows T (g XOR 2 ^ k) js r' = select_rows T g js r'" for r'
      using Cons.prems(1) notin by (rule select_rows_other)
    have hb: "bit (g XOR 2 ^ k) k = (\<not> bit g k)"
      using Cons.prems(1) by (simp add: bit_xor_exp)
    show ?thesis
      using True okf Ti
      by (simp add: select_rows_Cons hb other select_rows_add Pauli_add_cancel)
  next
    case False
    then have "k \<in> set js" using Cons.prems by simp
    moreover have "row_ok n (Pauli_add r (T ! i))" using Cons.prems Ti by (simp add: Pauli_add_ok)
    moreover have hi: "bit (g XOR 2 ^ k) i = bit g i"
      using Cons.prems(1) False by (simp add: bit_xor_exp)
    ultimately show ?thesis
      using Cons.prems Cons.IH by (simp add: select_rows_Cons hi)
  qed
qed

lemma selected_product_toggle:
  assumes "tableau_ok state" "k < num_stabilizers state" "k < 64"
  shows "selected_product state (g XOR 2 ^ k) = Pauli_add (selected_product state g) (table state ! k)"
  unfolding selected_product_def
  using assms
  by (intro select_rows_toggle [where n = "num_qubits state"])
     (simp_all add: tableau_ok_def Pauli_init_ok list_all_length)

lemma after_mask_Suc:
  "after_mask ops state (Suc m) = gray_step ops state (of_nat (Suc m)) (after_mask ops state m)"
  by (simp add: after_mask_def)

lemma gray_step_bit:
  assumes "find_bit_to_flip (BinaryToGray msk XOR BinaryToGray (msk - 1)) (num_stabilizers state) 0 = k"
  shows "gray_step ops state msk (acc, row, phase) =
           (acc + row_term (phase + word_of_int (phase_exponent ops row (table state ! k)))
                    (Pauli_add row (table state ! k)) (num_qubits state),
            Pauli_add row (table state ! k),
            phase + word_of_int (phase_exponent ops row (table state ! k)))"
  using assms by (simp add: gray_step_def Let_def)

lemma after_mask_row:
  assumes "tableau_ok state" "num_stabilizers state < 64"
  shows "m \<le> unat (full_mask_of state) \<Longrightarrow>
         fst (snd (after_mask ops state m)) = selected_product state (BinaryToGray (of_nat m))"
proof (induction m)
  case 0
  then show ?case
    by (simp add: after_mask_def BinaryToGray_def selected_product_def select_rows_zero)
next
  case (Suc m)
  let ?msk = "of_nat (Suc m) :: uint_t"
  have "unat (full_mask_of state) < 2 ^ 64"
    using unsigned_less [of "full_mask_of state"] by simp
  then have lt: "Suc m < 2 ^ 64" using Suc.prems by simp
  then have um: "unat ?msk = Suc m" by (simp only: unat_of_nat) simp
  then have nz: "?msk \<noteq> 0" by (metis Zero_not_Suc unsigned_0)
  have le: "?msk \<le> full_mask_of state" using Suc.prems um by (simp add: word_le_nat_alt)
  from bit_to_flip_in_range [OF assms(2) nz le] obtain k where
    k: "k < num_stabilizers state" "BinaryToGray ?msk XOR BinaryToGray (?msk - 1) = 2 ^ k"
       "find_bit_to_flip (BinaryToGray ?msk XOR BinaryToGray (?msk - 1)) (num_stabilizers state) 0 = k"
    by blast
  have pred: "?msk - 1 = of_nat m" by simp
  have g: "BinaryToGray ?msk = BinaryToGray (of_nat m) XOR 2 ^ k"
    using k(2) unfolding pred by (metis xor.commute xor.left_commute xor_self_eq xor.right_neutral)
  obtain acc row phase where s: "after_mask ops state m = (acc, row, phase)"
    by (cases "after_mask ops state m") auto
  have "fst (snd (after_mask ops state (Suc m)))
          = Pauli_add (fst (snd (after_mask ops state m))) (table state ! k)"
    by (simp only: after_mask_Suc s gray_step_bit [OF k(3)] fst_conv snd_conv)
  also have "\<dots> = Pauli_add (selected_product state (BinaryToGray (of_nat m))) (table state ! k)"
    using Suc by simp
  also have "\<dots> = selected_product state (BinaryToGray ?msk)"
    unfolding g using assms k(1) by (simp add: selected_product_toggle)
  finally show ?case .
qed

section \<open>The weight of a row\<close>

lemma weight_scan_no_Z:
  "\<forall>i. j \<le> i \<and> i < n \<longrightarrow> \<not> (\<not> X row ! i \<and> Z row ! i) \<Longrightarrow>
   weight_scan row n j (xc, yc, zc) =
     (xc + length (filter (\<lambda>i. X row ! i \<and> \<not> Z row ! i) [j..<n]),
      yc + length (filter (\<lambda>i. X row ! i \<and> Z row ! i) [j..<n]), zc)"
proof (induction row n j "(xc, yc, zc)" arbitrary: xc yc zc rule: weight_scan.induct)
  case (1 row n j XCount YCount ZCount)
  show ?case
  proof (cases "j < n")
    case False
    then show ?thesis by (subst weight_scan.simps) simp
  next
    case True
    then have up: "[j..<n] = j # [Suc j..<n]" by (simp add: upt_conv_Cons)
    have nz: "\<not> (\<not> X row ! j \<and> Z row ! j)" using "1.prems" True by simp
    have rest: "\<forall>i. j + 1 \<le> i \<and> i < n \<longrightarrow> \<not> (\<not> X row ! i \<and> Z row ! i)"
      using "1.prems" by simp
    show ?thesis
      using True nz "1.hyps" [OF True refl nz rest]
      by (subst weight_scan.simps) (auto simp: up Let_def)
  qed
qed

lemma weight_scan_Z:
  "\<exists>i. j \<le> i \<and> i < n \<and> \<not> X row ! i \<and> Z row ! i \<Longrightarrow>
   snd (snd (weight_scan row n j (xc, yc, zc))) = zc + 1"
proof (induction row n j "(xc, yc, zc)" arbitrary: xc yc zc rule: weight_scan.induct)
  case (1 row n j XCount YCount ZCount)
  then obtain i where i: "j \<le> i" "i < n" "\<not> X row ! i" "Z row ! i" by blast
  then have jn: "j < n" by simp
  show ?case
  proof (cases "\<not> X row ! j \<and> Z row ! j")
    case True
    then show ?thesis using jn by (subst weight_scan.simps) (simp add: Let_def)
  next
    case False
    then have "i \<noteq> j" using i by auto
    then have "j + 1 \<le> i" using i(1) by simp
    then have ex: "\<exists>i. j + 1 \<le> i \<and> i < n \<and> \<not> X row ! i \<and> Z row ! i"
      using i by blast
    show ?thesis
      using jn False "1.hyps" [OF jn refl False ex]
      by (subst weight_scan.simps) (auto simp: Let_def)
  qed
qed

lemma half_powr: "(1/2) powr a = 2 powr (- a)" for a :: real
  by (simp add: powr_divide powr_minus_divide)

lemma row_term_eq:
  "row_term phase row n =
     (if \<exists>j<n. \<not> X row ! j \<and> Z row ! j then 0
      else if even (unat phase + length (filter (\<lambda>j. X row ! j \<and> Z row ! j) [0..<n]))
      then 2 powr (- (real (length (filter (\<lambda>j. X row ! j \<and> \<not> Z row ! j) [0..<n])
                        + length (filter (\<lambda>j. X row ! j \<and> Z row ! j) [0..<n])) / 2))
      else - (2 powr (- (real (length (filter (\<lambda>j. X row ! j \<and> \<not> Z row ! j) [0..<n])
                        + length (filter (\<lambda>j. X row ! j \<and> Z row ! j) [0..<n])) / 2))))"
proof (cases "\<exists>j<n. \<not> X row ! j \<and> Z row ! j")
  case True
  then have "\<exists>i. 0 \<le> i \<and> i < n \<and> \<not> X row ! i \<and> Z row ! i" by simp
  from weight_scan_Z [OF this, of 0 0 0] show ?thesis
    using True by (auto simp: row_term_def split: prod.splits)
next
  case False
  then have "\<forall>i. 0 \<le> i \<and> i < n \<longrightarrow> \<not> (\<not> X row ! i \<and> Z row ! i)" by simp
  from weight_scan_no_Z [OF this, of 0 0 0] show ?thesis
    using False by (simp add: row_term_def half_powr even_iff_mod_2_eq_zero)
qed

section \<open>Claims about the summation\<close>

text \<open>
  C4. In every iteration of the main loop of \<^verbatim>\<open>compute_algorithm_all_phases_T\<close>, with
  \<open>row'\<close> and \<open>phase'\<close> the accumulated row and phase exponent after the update of that
  iteration: if some qubit position of \<open>row'\<close> is Z-only the accumulator does not change;
  otherwise it changes by \<open>2\<close> to the power \<open>-(XCount + YCount)/2\<close>, added when
  \<open>phase' + YCount\<close> is even and subtracted when it is odd, where \<open>XCount\<close> and \<open>YCount\<close>
  count the X-only and the Y positions of \<open>row'\<close>.
\<close>

theorem row_contribution:
  "(case gray_step ops state msk (acc, row, phase) of (acc', row', phase') \<Rightarrow>
      acc' - acc =
        (if \<exists>j<num_qubits state. \<not> X row' ! j \<and> Z row' ! j then 0
         else if even (unat phase' + Y_count row' (num_qubits state))
         then 2 powr (- (real (X_count row' (num_qubits state) + Y_count row' (num_qubits state)) / 2))
         else - (2 powr (- (real (X_count row' (num_qubits state) + Y_count row' (num_qubits state)) / 2)))))"
  by (simp add: gray_step_def Let_def row_term_eq X_count_def Y_count_def)

text \<open>
  C5. For every 64-bit \<open>mask \<ge> 1\<close> the codes \<open>BinaryToGray mask\<close> and
  \<open>BinaryToGray (mask - 1)\<close> differ in exactly one bit. With fewer than 64 stabilizers
  and \<open>mask\<close> up to \<open>full_mask\<close>, that bit \<open>k\<close> is the index of a stabilizer, the
  iteration adds exactly the generator row \<open>k\<close> (one symmetric difference and one phase
  exponent), and the loop reaches the state \<open>after_mask \<dots> mask\<close> when it has processed
  \<open>mask\<close>. In a well-formed tableau the running row is then the product of the
  generator rows selected by \<open>BinaryToGray mask\<close>.
\<close>

theorem gray_code_step:
  assumes "1 \<le> msk"
  shows "(\<exists>k<64. BinaryToGray msk XOR BinaryToGray (msk - 1) = push_bit k ONE) \<and>
         (num_stabilizers state < 64 \<and> msk \<le> full_mask_of state \<longrightarrow>
            (\<exists>k<num_stabilizers state.
               BinaryToGray msk XOR BinaryToGray (msk - 1) = push_bit k ONE \<and>
               gray_step ops state msk (acc, row, phase) =
                 (acc + row_term (phase + word_of_int (phase_exponent ops row (table state ! k)))
                          (Pauli_add row (table state ! k)) (num_qubits state),
                  Pauli_add row (table state ! k),
                  phase + word_of_int (phase_exponent ops row (table state ! k)))) \<and>
            gray_loop ops state (full_mask_of state) 1 (1, Pauli_init (num_qubits state), 0) =
              gray_loop ops state (full_mask_of state) (msk + 1) (after_mask ops state (unat msk))) \<and>
         (tableau_ok state \<and> num_stabilizers state < 64 \<and> msk \<le> full_mask_of state \<longrightarrow>
            fst (snd (after_mask ops state (unat msk))) = selected_product state (BinaryToGray msk))"
proof -
  have nz: "msk \<noteq> 0" using assms by auto
  from BinaryToGray_flip [OF nz]
  have one: "\<exists>k<64. BinaryToGray msk XOR BinaryToGray (msk - 1) = push_bit k ONE"
    by (auto simp: ONE_def push_bit_eq_mult)
  have step: "\<exists>k<num_stabilizers state.
               BinaryToGray msk XOR BinaryToGray (msk - 1) = push_bit k ONE \<and>
               gray_step ops state msk (acc, row, phase) =
                 (acc + row_term (phase + word_of_int (phase_exponent ops row (table state ! k)))
                          (Pauli_add row (table state ! k)) (num_qubits state),
                  Pauli_add row (table state ! k),
                  phase + word_of_int (phase_exponent ops row (table state ! k)))"
    if n: "num_stabilizers state < 64" and le: "msk \<le> full_mask_of state"
  proof -
    from bit_to_flip_in_range [OF n nz le] obtain k where
      k: "k < num_stabilizers state" "BinaryToGray msk XOR BinaryToGray (msk - 1) = 2 ^ k"
         "find_bit_to_flip (BinaryToGray msk XOR BinaryToGray (msk - 1)) (num_stabilizers state) 0 = k"
      by blast
    show ?thesis
      using k(1,2) gray_step_bit [OF k(3)] by (auto simp: ONE_def push_bit_eq_mult)
  qed
  have reach: "gray_loop ops state (full_mask_of state) 1 (1, Pauli_init (num_qubits state), 0) =
              gray_loop ops state (full_mask_of state) (msk + 1) (after_mask ops state (unat msk))"
    if n: "num_stabilizers state < 64" and le: "msk \<le> full_mask_of state"
  proof -
    have fm: "full_mask_of state \<noteq> - 1" using n by (rule full_mask_not_max)
    have ule: "unat msk \<le> unat (full_mask_of state)" using le by (simp add: word_le_nat_alt)
    have "msk \<noteq> - 1" using le fm by (auto simp: word_order.extremum_unique)
    then have "1 + msk \<noteq> 0" by (simp add: add_eq_0_iff)
    then have "unat (1 + msk) = Suc (unat msk)" by (rule unatSuc)
    then have u: "unat (msk + 1) = Suc (unat msk)" by (simp add: add.commute)
    have pos: "1 \<le> unat msk" using nz by (simp add: Suc_le_eq unat_gt_0)
    have split: "[1..<Suc (unat (full_mask_of state))]
                   = [1..<Suc (unat msk)] @ [Suc (unat msk)..<Suc (unat (full_mask_of state))]"
      using pos ule by (metis Suc_le_mono le_SucI upt_add_eq_append le_iff_add)
    have "gray_loop ops state (full_mask_of state) 1 (1, Pauli_init (num_qubits state), 0)
            = Some (fold (\<lambda>i. gray_step ops state (of_nat i))
                      [1..<Suc (unat (full_mask_of state))] (1, Pauli_init (num_qubits state), 0))"
      using gray_loop_fold [OF fm, of 1 ops state] by simp
    also have "\<dots> = Some (fold (\<lambda>i. gray_step ops state (of_nat i))
                      [Suc (unat msk)..<Suc (unat (full_mask_of state))] (after_mask ops state (unat msk)))"
      by (simp only: split fold_append o_apply after_mask_def)
    also have "\<dots> = gray_loop ops state (full_mask_of state) (msk + 1) (after_mask ops state (unat msk))"
      using gray_loop_fold [OF fm, of "msk + 1" ops state] ule by (simp add: u)
    finally show ?thesis .
  qed
  have prod: "fst (snd (after_mask ops state (unat msk))) = selected_product state (BinaryToGray msk)"
    if ok: "tableau_ok state" and n: "num_stabilizers state < 64" and le: "msk \<le> full_mask_of state"
  proof -
    have "unat msk \<le> unat (full_mask_of state)" using le by (simp add: word_le_nat_alt)
    from after_mask_row [OF ok n this, of ops] show ?thesis by simp
  qed
  from one step reach prod show ?thesis by blast
qed

lemma BinaryToGray_2: "BinaryToGray 2 = 3"
  by (simp add: BinaryToGray_def drop_bit_eq_div)

lemma bit_3_0: "bit (3::uint_t) 0"
  by simp

lemma bit_3_1: "bit (3::uint_t) (Suc 0)"
  by (simp add: bit_Suc)

lemma upt_0_2: "[0..<2] = [0, Suc 0]"
  by (simp add: numeral_2_eq_2)

lemma replicate_2: "replicate 2 False = [False, False]"
  by (simp add: numeral_2_eq_2)

lemma selected_product_two:
  "selected_product two_magic_qubits 3 = \<lparr>X = [True, True], Z = [False, True]\<rparr>"
  by (simp add: selected_product_def select_rows_def two_magic_qubits_def Pauli_init_def
        Pauli_add_def bv_add_def upt_0_2 replicate_2 bit_3_0 bit_3_1)

theorem gray_code_step_witness:
  "(1::uint_t) \<le> 2 \<and> tableau_ok two_magic_qubits \<and> num_stabilizers two_magic_qubits < 64 \<and>
   2 \<le> full_mask_of two_magic_qubits \<and>
   BinaryToGray 2 XOR BinaryToGray (2 - 1) = push_bit 1 ONE \<and>
   fst (snd (after_mask (idle_ops True 0) two_magic_qubits (unat (2::uint_t))))
     = \<lparr>X = [True, True], Z = [False, True]\<rparr>"
proof -
  have h1: "(1::uint_t) \<le> 2" by simp
  have h2: "tableau_ok two_magic_qubits"
    by (simp add: tableau_ok_def two_magic_qubits_def row_ok_def)
  have h3: "num_stabilizers two_magic_qubits < 64" by (simp add: two_magic_qubits_def)
  have h4: "2 \<le> full_mask_of two_magic_qubits"
    by (simp add: full_mask_of_eq two_magic_qubits_def mask_eq_exp_minus_1)
  have bit: "BinaryToGray 2 XOR BinaryToGray (2 - 1) = push_bit 1 ONE"
    by (simp add: BinaryToGray_def drop_bit_eq_div ONE_def)
  from gray_code_step [OF h1, of two_magic_qubits "idle_ops True 0"] h2 h3 h4
  have "fst (snd (after_mask (idle_ops True 0) two_magic_qubits (unat (2::uint_t))))
          = selected_product two_magic_qubits (BinaryToGray 2)"
    by blast
  then show ?thesis using h1 h2 h3 h4 bit by (simp add: BinaryToGray_2 selected_product_two)
qed

section \<open>The probability query\<close>

text \<open>The query in terms of its intermediate tableaux.\<close>

lemma compute_probability_at_eq:
  "compute_probability_at ops a mq outs =
     (if \<not> fst (fst (solved ops a mq outs)) then (Return_unsatisfiable, Some 0)
      else if num_qubits (residual ops a mq outs) = 0
      then (Return_no_magic, Some (2 powr (real (snd (fst (solved ops a mq outs))) - real (length mq))))
      else (Return_summation,
            map_option
              (\<lambda>acc. acc * 2 powr real (unat (word_of_nat (snd (fst (solved ops a mq outs)))
                                              - word_of_nat (length mq) :: 64 word)))
              (compute_algorithm_all_phases_T ops (residual ops a mq outs))))"
  by (simp add: compute_probability_at_def compute_probability_body_def on_copy_def
        AGState_copy_def solved_def residual_def prepared_def Let_def)

lemma compute_probability_body_this:
  "this_qreg (snd (compute_probability_body ops mq outs fr)) = this_qreg fr"
  by (simp add: compute_probability_body_def on_copy_def Let_def)

lemma compute_probability_value:
  "fst (compute_probability ops this mq outs) = snd (compute_probability_at ops (qreg this) mq outs)"
  by (simp add: compute_probability_def compute_probability_at_def Let_def split: prod.splits)

lemma compute_probability_state:
  "snd (compute_probability ops this mq outs) = this"
proof -
  have "this_qreg (snd (compute_probability_body ops mq outs
          \<lparr>this_qreg = qreg this, the_copy = AGState_copy (qreg this)\<rparr>)) = qreg this"
    by (simp only: compute_probability_body_this frame.simps)
  then show ?thesis
    by (cases "compute_probability_body ops mq outs
                 \<lparr>this_qreg = qreg this, the_copy = AGState_copy (qreg this)\<rparr>")
       (simp add: compute_probability_def Let_def)
qed

lemma compute_probability_at_prepared:
  assumes "prepared ops a mq outs = prepared ops b mq' outs'" and "length mq = length mq'"
  shows "compute_probability_at ops a mq outs = compute_probability_at ops b mq' outs'"
  by (simp add: compute_probability_at_eq solved_def residual_def assms Let_def)

lemma summation_route:
  "(compute_probability_at ops a mq outs = (Return_summation, r)) =
     (fst (fst (solved ops a mq outs)) \<and> num_qubits (residual ops a mq outs) \<noteq> 0 \<and>
      r = map_option
            (\<lambda>acc. acc * 2 powr real (unat (word_of_nat (snd (fst (solved ops a mq outs)))
                                            - word_of_nat (length mq) :: 64 word)))
            (compute_algorithm_all_phases_T ops (residual ops a mq outs)))"
  by (auto simp: compute_probability_at_eq)

text \<open>With fewer than 64 stabilizers left after the cleanup the query returns a number.\<close>

lemma compute_probability_at_returns:
  assumes "num_stabilizers (residual ops a mq outs) < 64"
  shows "\<exists>p. snd (compute_probability_at ops a mq outs) = Some p"
  by (simp add: compute_probability_at_eq compute_algorithm_all_phases_T_returns [OF assms])

text \<open>
  The tableaux handed to the constraint solver for the measured qubits \<open>[2,0]\<close> with
  outcomes \<open>[1,0]\<close> and for \<open>[0,2]\<close> with \<open>[0,1]\<close>: in both, the X is on the position
  that holds qubit 2 and qubit 0 is on the other leading position, in the two orders.
\<close>

lemma prepared_2_0:
  "prepared ops a [2, 0] [1, 0] = applyX ops 0 (applySwap ops 2 0 (applySwap ops 0 1 a)) \<and>
   prepared ops a [0, 2] [0, 1] = applyX ops 1 (applySwap ops 2 1 a)"
  by (simp add: prepared_def reorder_measured_def normalize_outcomes_def reorder_step_def
        find_idx_def numeral_2_eq_2 Let_def)

lemma idle_fields:
  "applyX (idle_ops ok v) = (\<lambda>q c. c)"
  "applySwap (idle_ops ok v) = (\<lambda>q r c. c)"
  "apply_constraints (idle_ops ok v) = (\<lambda>w t c. ((ok, v), c))"
  "apply_T_constraints (idle_ops ok v) = (\<lambda>c. c)"
  "delete_identity_magic_qubits (idle_ops ok v) = (\<lambda>c. c)"
  "phase_exponent (idle_ops ok v) = (\<lambda>r g. 0)"
  "AG_CHOP_THRESHOLD (idle_ops ok v) = 1 / 10 ^ 10"
  by (simp_all add: idle_ops_def)

lemma idle_reorder: "reorder_measured (idle_ops ok v) mq a = a"
proof -
  have "fold (reorder_step (idle_ops ok v) mq srt) js a = a" for srt js
    by (induction js) (simp_all add: reorder_step_def idle_fields Let_def)
  then show ?thesis by (simp add: reorder_measured_def)
qed

lemma idle_normalize: "normalize_outcomes (idle_ops ok v) outs a = a"
proof -
  have "fold (\<lambda>i c. if outs ! i = 1 then applyX (idle_ops ok v) i c else c) js a = a" for js
    by (induction js) (simp_all add: idle_fields)
  then show ?thesis by (simp add: normalize_outcomes_def)
qed

lemma idle_prepared: "prepared (idle_ops ok v) a mq outs = a"
  by (simp add: prepared_def idle_reorder idle_normalize)

lemma idle_solved: "solved (idle_ops ok v) a mq outs = ((ok, v), a)"
  by (simp add: solved_def idle_prepared idle_fields)

lemma fold_keep: "fold (\<lambda>q c. c) js a = a"
  by (induction js) simp_all

lemma idle_residual:
  "residual (idle_ops ok v) a mq outs =
     (fold (truncate_row (length (magic_phases a))) [0..<num_stabilizers a] a)
       \<lparr>num_qubits := length (magic_phases a)\<rparr>"
  by (simp add: residual_def idle_prepared idle_solved idle_fields isolate_magic_def fold_keep
        Let_def)

lemma residual_one_magic:
  "residual (idle_ops ok v) (one_magic_qubit phi) mq outs = one_magic_qubit phi"
  by (simp add: idle_residual one_magic_qubit_def truncate_row_def bv_resize_def)

lemma residual_one_plain:
  "residual (idle_ops ok v) one_plain_qubit mq outs =
     \<lparr>num_qubits = 0, num_stabilizers = 1, table = [\<lparr>X = [], Z = []\<rparr>], magic_phases = []\<rparr>"
  by (simp add: idle_residual one_plain_qubit_def truncate_row_def bv_resize_def)

lemma gray_1: "BinaryToGray 1 XOR BinaryToGray 0 = 1"
  by (simp add: BinaryToGray_def drop_bit_eq_div)


lemma find_bit_1: "find_bit_to_flip 1 (Suc 0) 0 = 0"
  by (subst find_bit_to_flip.simps) (simp add: ONE_def)


lemma weight_scan_X: "weight_scan \<lparr>X = [True], Z = [False]\<rparr> (Suc 0) 0 (0, 0, 0) = (1, 0, 0)"
  by (subst weight_scan.simps, simp, subst weight_scan.simps, simp)


lemma after_mask_one_magic:
  "after_mask (idle_ops ok v) (one_magic_qubit phi) (Suc 0)
     = (1 + (1/2) powr (1/2), \<lparr>X = [True], Z = [False]\<rparr>, 0)"
  by (simp add: after_mask_def gray_step_def gray_1 one_magic_qubit_def find_bit_1 Let_def
        idle_fields Pauli_add_def Pauli_init_def bv_add_def row_term_def weight_scan_X)


lemma summation_one_magic:
  "compute_algorithm_all_phases_T (idle_ops ok v) (one_magic_qubit phi) = Some (1 + (1/2) powr (1/2))"
proof -
  have n: "num_stabilizers (one_magic_qubit phi) < 64" by (simp add: one_magic_qubit_def)
  have fm: "full_mask_of (one_magic_qubit phi) = 1"
    by (simp add: full_mask_of_eq one_magic_qubit_def)
  show ?thesis
    by (simp add: compute_algorithm_all_phases_T_returns [OF n] fm after_mask_one_magic)
qed



text \<open>
  The query for qubit 0 and outcome 0 on the tableau of one code and one magic qubit,
  with the second instance of the parameters: the swap of the isolation step brings the
  magic qubit to position 0, and the truncation leaves the tableau \<open>magic_alone\<close>.
\<close>

lemma column_fields:
  "applyX (column_ops ok v) = (\<lambda>q c. c)"
  "applySwap (column_ops ok v) = swap_columns"
  "apply_constraints (column_ops ok v) = (\<lambda>w t c. ((ok, v), c))"
  "apply_T_constraints (column_ops ok v) = (\<lambda>c. c)"
  "delete_identity_magic_qubits (column_ops ok v) = (\<lambda>c. c)"
  "phase_exponent (column_ops ok v) = (\<lambda>r g. 0)"
  "AG_CHOP_THRESHOLD (column_ops ok v) = 1 / 10 ^ 10"
  by (simp_all add: column_ops_def idle_ops_def)

lemma column_prepared: "prepared (column_ops ok v) a [0] [0] = a"
  by (simp add: prepared_def reorder_measured_def normalize_outcomes_def reorder_step_def
        Let_def column_fields)

lemma column_solved: "solved (column_ops ok v) a [0] [0] = ((ok, v), a)"
  by (simp add: solved_def column_prepared column_fields)

lemma column_residual:
  "residual (column_ops ok v) (code_and_magic phi) [0] [0] = magic_alone phi"
  by (simp add: residual_def column_prepared column_solved column_fields isolate_magic_def
        code_and_magic_def magic_alone_def swap_columns_def swap_bits_def truncate_row_def
        bv_resize_def Let_def upt_0_2)

lemma gray_2_1: "BinaryToGray 2 XOR BinaryToGray 1 = 2"
  by (simp add: BinaryToGray_def drop_bit_eq_div)

lemma gray_3_2: "BinaryToGray 3 XOR BinaryToGray 2 = 1"
  by (simp add: BinaryToGray_def drop_bit_eq_div)

lemma find_bit_1_of_2: "find_bit_to_flip 1 2 0 = 0"
  by (subst find_bit_to_flip.simps) (simp add: ONE_def)

lemma find_bit_2_of_2: "find_bit_to_flip 2 2 0 = 1"
  by (subst find_bit_to_flip.simps, simp add: ONE_def drop_bit_eq_div,
      subst find_bit_to_flip.simps, simp add: ONE_def drop_bit_eq_div)

lemma weight_scan_I: "weight_scan \<lparr>X = [False], Z = [False]\<rparr> (Suc 0) 0 (0, 0, 0) = (0, 0, 0)"
  by (subst weight_scan.simps, simp, subst weight_scan.simps, simp)

lemma gray_step_magic_alone_1:
  "gray_step (column_ops ok v) (magic_alone phi) 1 (1, \<lparr>X = [False], Z = [False]\<rparr>, 0)
     = (2, \<lparr>X = [False], Z = [False]\<rparr>, 0)"
  by (simp add: gray_step_def gray_1 find_bit_1_of_2 magic_alone_def column_fields Let_def
        Pauli_add_def bv_add_def row_term_def weight_scan_I)

lemma gray_step_magic_alone_2:
  "gray_step (column_ops ok v) (magic_alone phi) 2 (2, \<lparr>X = [False], Z = [False]\<rparr>, 0)
     = (2 + (1/2) powr (1/2), \<lparr>X = [True], Z = [False]\<rparr>, 0)"
  by (simp add: gray_step_def gray_2_1 find_bit_2_of_2 magic_alone_def column_fields Let_def
        Pauli_add_def bv_add_def row_term_def weight_scan_X)

lemma gray_step_magic_alone_3:
  "gray_step (column_ops ok v) (magic_alone phi) 3
       (2 + (1/2) powr (1/2), \<lparr>X = [True], Z = [False]\<rparr>, 0)
     = (2 + 2 * (1/2) powr (1/2), \<lparr>X = [True], Z = [False]\<rparr>, 0)"
  by (simp add: gray_step_def gray_3_2 find_bit_1_of_2 magic_alone_def column_fields Let_def
        Pauli_add_def bv_add_def row_term_def weight_scan_X)

lemma after_mask_magic_alone:
  "after_mask (column_ops ok v) (magic_alone phi) (Suc (Suc (Suc 0)))
     = (2 + 2 * (1/2) powr (1/2), \<lparr>X = [True], Z = [False]\<rparr>, 0)"
proof -
  have init: "Pauli_init (num_qubits (magic_alone phi)) = \<lparr>X = [False], Z = [False]\<rparr>"
    by (simp add: Pauli_init_def magic_alone_def)
  have a1: "after_mask (column_ops ok v) (magic_alone phi) (Suc 0)
              = (2, \<lparr>X = [False], Z = [False]\<rparr>, 0)"
    by (simp add: after_mask_def init gray_step_magic_alone_1)
  have a2: "after_mask (column_ops ok v) (magic_alone phi) (Suc (Suc 0))
              = (2 + (1/2) powr (1/2), \<lparr>X = [True], Z = [False]\<rparr>, 0)"
    by (subst after_mask_Suc) (simp add: a1 gray_step_magic_alone_2)
  show ?thesis
    by (subst after_mask_Suc) (simp add: a2 gray_step_magic_alone_3)
qed

lemma summation_magic_alone:
  "compute_algorithm_all_phases_T (column_ops ok v) (magic_alone phi)
     = Some (2 + 2 * (1/2) powr (1/2))"
proof -
  have n: "num_stabilizers (magic_alone phi) < 64" by (simp add: magic_alone_def)
  have fm: "full_mask_of (magic_alone phi) = 3"
    by (simp add: full_mask_of_eq magic_alone_def mask_eq_exp_minus_1)
  have "unat (3::uint_t) = 3" by simp
  also have "(3::nat) = Suc (Suc (Suc 0))" by (simp add: numeral_3_eq_3)
  finally have u: "unat (3::uint_t) = Suc (Suc (Suc 0))" .
  show ?thesis
    by (simp only: compute_algorithm_all_phases_T_returns [OF n] fm u after_mask_magic_alone)
       simp
qed

section \<open>Claims about the probability query\<close>

text \<open>
  C1. The result of \<^verbatim>\<open>compute_probability\<close> is produced by the closed-form all-T
  summation exactly when every remaining magic phase is \<open>\<pi>/4\<close> within the tolerance, and
  by a different path otherwise. In the code, for every tableau component and every
  query, the query leaves by the return statement of the summation exactly when the
  solver has succeeded and some magic qubit remains, with the value of
  \<^verbatim>\<open>compute_algorithm_all_phases_T\<close> times the factor of that return statement: the test
  of the phases has no part in it. Evaluated on the query for qubit 0 and outcome 0, on
  one code qubit and one magic qubit of phase \<open>-\<pi>/4\<close> (the angle of the gate
  \<^verbatim>\<open>tdg\<close>): the test of the phases fails, and the result is the value of
  \<^verbatim>\<open>compute_algorithm_all_phases_T\<close> all the same.
\<close>

theorem all_T_flag_not_consulted:
  "(compute_probability_at ops a mq outs = (Return_summation, r)) =
     (fst (fst (solved ops a mq outs)) \<and> num_qubits (residual ops a mq outs) \<noteq> 0 \<and>
      r = map_option
            (\<lambda>acc. acc * 2 powr real (unat (word_of_nat (snd (fst (solved ops a mq outs)))
                                            - word_of_nat (length mq) :: 64 word)))
            (compute_algorithm_all_phases_T ops (residual ops a mq outs))) \<and>
   \<not> all_phases_are_T (column_ops True 1)
       (residual (column_ops True 1) (code_and_magic (- T_ANGLE)) [0] [0]) \<and>
   compute_probability_at (column_ops True 1) (code_and_magic (- T_ANGLE)) [0] [0]
     = (Return_summation,
        compute_algorithm_all_phases_T (column_ops True 1)
          (residual (column_ops True 1) (code_and_magic (- T_ANGLE)) [0] [0])) \<and>
   compute_algorithm_all_phases_T (column_ops True 1)
       (residual (column_ops True 1) (code_and_magic (- T_ANGLE)) [0] [0])
     = Some (2 + 2 * (1/2) powr (1/2))"
proof -
  have "(1::real) / 10 ^ 10 < pi / 2" using pi_ge_two by simp
  then have flag: "\<not> all_phases_are_T (column_ops True 1) (magic_alone (- T_ANGLE))"
    by (simp add: all_phases_are_T_def magic_alone_def column_fields T_ANGLE_def)
  have nq: "num_qubits (magic_alone (- T_ANGLE)) \<noteq> 0"
    by (simp add: magic_alone_def)
  have inst:
    "\<not> all_phases_are_T (column_ops True 1)
       (residual (column_ops True 1) (code_and_magic (- T_ANGLE)) [0] [0]) \<and>
     compute_probability_at (column_ops True 1) (code_and_magic (- T_ANGLE)) [0] [0]
       = (Return_summation,
          compute_algorithm_all_phases_T (column_ops True 1)
            (residual (column_ops True 1) (code_and_magic (- T_ANGLE)) [0] [0])) \<and>
     compute_algorithm_all_phases_T (column_ops True 1)
         (residual (column_ops True 1) (code_and_magic (- T_ANGLE)) [0] [0])
       = Some (2 + 2 * (1/2) powr (1/2))"
    using flag nq
    by (simp add: compute_probability_at_eq column_solved column_residual summation_magic_alone)
  from summation_route [of ops a mq outs r] inst show ?thesis by (simp only: simp_thms)
qed


text \<open>
  C2. \<^verbatim>\<open>compute_probability\<close> returns a number in \<open>[0,1]\<close>, and \<open>acc\<close> times 2 to the
  power of the integer difference \<open>v - w\<close> when magic qubits remain. Evaluated with one
  measured qubit (\<open>w = 1\<close>), a solver that succeeds with \<open>v = 0\<close> and one magic qubit
  left: the exponent is the 64-bit difference \<open>2 ^ 64 - 1\<close> and not \<open>-1\<close>, and the value
  is above 1.
\<close>

theorem exponent_wraps_below_zero:
  "fst (compute_probability (idle_ops True 0)
          \<lparr>qreg = one_magic_qubit T_ANGLE, num_code_qubits = 0\<rparr> [0] [0])
     = Some ((1 + (1/2) powr (1/2)) * 2 powr 18446744073709551615) \<and>
   (1 + (1/2) powr (1/2)) * 2 powr 18446744073709551615 > (1::real)"
proof -
  define b :: real where "b = 2 powr 18446744073709551615"
  define a :: real where "a = 1 + (1/2) powr (1/2)"
  have e: "real (unat (word_of_nat 0 - word_of_nat (length [0::nat]) :: 64 word))
             = 18446744073709551615"
    by (simp add: unsigned_minus_1_eq_mask mask_eq_exp_minus_1)
  have r: "num_qubits (one_magic_qubit T_ANGLE) \<noteq> 0" by (simp add: one_magic_qubit_def)
  have "compute_probability_at (idle_ops True 0) (one_magic_qubit T_ANGLE) [0] [0]
          = (Return_summation, Some (a * 2 powr real (unat (word_of_nat 0 - word_of_nat (length [0::nat]) :: 64 word))))"
    using r by (simp only: compute_probability_at_eq idle_solved residual_one_magic
          summation_one_magic fst_conv snd_conv if_True if_False not_True_eq_False
          option.map a_def)
  then have v: "fst (compute_probability (idle_ops True 0)
          \<lparr>qreg = one_magic_qubit T_ANGLE, num_code_qubits = 0\<rparr> [0] [0]) = Some (a * b)"
    by (simp only: compute_probability_value State.simps fst_conv snd_conv e b_def)
  have "(1::real) \<le> b" unfolding b_def by (rule ge_one_powr_ge_zero) simp_all
  moreover have "(1::real) < a" unfolding a_def by simp
  ultimately have "1 * 1 < a * b"
    by (intro mult_less_le_imp_less) simp_all
  with v show ?thesis unfolding a_def b_def by (simp only: mult_1 simp_thms)
qed

text \<open>
  C3. Permuting the measured qubits together with their outcomes leaves the result
  unchanged. Evaluated on the query for qubits \<open>[1,0]\<close> with outcomes \<open>[1,0]\<close>: the two
  swaps of the first loop are of the same pair of qubits, and the X lands on position
  0; the same query in sorted order, \<open>[0,1]\<close> with \<open>[0,1]\<close>, puts the X on position 1
  of the untouched tableau. So the first query is answered as the query for qubit 0 to
  be 1 and qubit 1 to be 0, on the tableau swapped twice.
\<close>

theorem reorder_cancels:
  "prepared ops a [1, 0] [1, 0] = applyX ops 0 (applySwap ops 1 0 (applySwap ops 0 1 a)) \<and>
   prepared ops a [0, 1] [0, 1] = applyX ops 1 a \<and>
   compute_probability_at ops a [1, 0] [1, 0]
     = compute_probability_at ops (applySwap ops 1 0 (applySwap ops 0 1 a)) [0, 1] [1, 0]"
proof -
  have p1: "prepared ops a [1, 0] [1, 0] = applyX ops 0 (applySwap ops 1 0 (applySwap ops 0 1 a))"
    by (simp add: prepared_def reorder_measured_def normalize_outcomes_def reorder_step_def
          find_idx_def numeral_2_eq_2 Let_def)
  have p2: "prepared ops a [0, 1] [0, 1] = applyX ops 1 a"
    by (simp add: prepared_def reorder_measured_def normalize_outcomes_def reorder_step_def
          find_idx_def numeral_2_eq_2 Let_def)
  have p3: "prepared ops b [0, 1] [1, 0] = applyX ops 0 b" for b
    by (simp add: prepared_def reorder_measured_def normalize_outcomes_def reorder_step_def
          find_idx_def numeral_2_eq_2 Let_def)
  have "compute_probability_at ops a [1, 0] [1, 0]
     = compute_probability_at ops (applySwap ops 1 0 (applySwap ops 0 1 a)) [0, 1] [1, 0]"
    by (rule compute_probability_at_prepared) (simp_all only: p1 p3 list.size)
  with p1 p2 show ?thesis by (simp only: simp_thms)
qed

text \<open>
  C6. If the constraint solver reports failure, \<^verbatim>\<open>compute_probability\<close> returns exactly
  0 by its first return statement, whatever the number of magic qubits, and the
  summation is not run.
\<close>

theorem unsatisfiable_is_zero:
  assumes "\<not> fst (fst (solved ops (qreg this) mq outs))"
  shows "compute_probability ops this mq outs = (Some 0, this) \<and>
         compute_probability_at ops (qreg this) mq outs = (Return_unsatisfiable, Some 0)"
proof -
  have "compute_probability_at ops (qreg this) mq outs = (Return_unsatisfiable, Some 0)"
    using assms by (simp add: compute_probability_at_eq)
  moreover from this have "fst (compute_probability ops this mq outs) = Some 0"
    by (simp add: compute_probability_value)
  ultimately show ?thesis
    using compute_probability_state [of ops this mq outs] by (simp add: prod_eq_iff)
qed

theorem unsatisfiable_is_zero_witness:
  "\<not> fst (fst (solved (idle_ops False 0)
            (qreg \<lparr>qreg = one_magic_qubit T_ANGLE, num_code_qubits = 0\<rparr>) [0] [1])) \<and>
   compute_probability (idle_ops False 0)
       \<lparr>qreg = one_magic_qubit T_ANGLE, num_code_qubits = 0\<rparr> [0] [1]
     = (Some 0, \<lparr>qreg = one_magic_qubit T_ANGLE, num_code_qubits = 0\<rparr>)"
proof -
  have h: "\<not> fst (fst (solved (idle_ops False 0)
             (qreg \<lparr>qreg = one_magic_qubit T_ANGLE, num_code_qubits = 0\<rparr>) [0] [1]))"
    by (simp add: idle_solved)
  from unsatisfiable_is_zero [OF h] h show ?thesis by blast
qed

text \<open>
  C7. If the constraint solver succeeds with the value \<open>v\<close> and no magic qubit is left
  after the cleanup, \<^verbatim>\<open>compute_probability\<close> returns exactly 2 to the power of the
  integer difference \<open>v - w\<close>, by its second return statement and without the summation.
\<close>

theorem no_magic_is_power:
  assumes "fst (fst (solved ops (qreg this) mq outs))"
    and "num_qubits (residual ops (qreg this) mq outs) = 0"
  shows "fst (compute_probability ops this mq outs)
           = Some (2 powr (real_of_int (int (snd (fst (solved ops (qreg this) mq outs)))
                                         - int (length mq)))) \<and>
         fst (compute_probability_at ops (qreg this) mq outs) = Return_no_magic"
  using assms by (simp add: compute_probability_value compute_probability_at_eq)

theorem no_magic_is_power_witness:
  "fst (fst (solved (idle_ops True 1)
        (qreg \<lparr>qreg = one_plain_qubit, num_code_qubits = 1\<rparr>) [0] [0])) \<and>
   num_qubits (residual (idle_ops True 1)
        (qreg \<lparr>qreg = one_plain_qubit, num_code_qubits = 1\<rparr>) [0] [0]) = 0 \<and>
   fst (compute_probability (idle_ops True 1)
        \<lparr>qreg = one_plain_qubit, num_code_qubits = 1\<rparr> [0] [0]) = Some 1"
proof -
  have h1: "fst (fst (solved (idle_ops True 1)
              (qreg \<lparr>qreg = one_plain_qubit, num_code_qubits = 1\<rparr>) [0] [0]))"
    by (simp add: idle_solved)
  have h2: "num_qubits (residual (idle_ops True 1)
              (qreg \<lparr>qreg = one_plain_qubit, num_code_qubits = 1\<rparr>) [0] [0]) = 0"
    by (simp add: residual_one_plain)
  from no_magic_is_power [OF h1 h2] h1 h2 show ?thesis by (simp add: idle_solved)
qed

text \<open>
  C8. \<^verbatim>\<open>compute_probability\<close> does not change the caller's tableau: every reduction
  step works on the copy, and the state after the call (the tableau with its rows,
  counts and phases, and the number of code qubits) is the state before it.
\<close>

theorem caller_tableau_unchanged:
  "snd (compute_probability ops this mq outs) = this \<and>
   this_qreg (snd (compute_probability_body ops mq outs
                     \<lparr>this_qreg = qreg this, the_copy = AGState_copy (qreg this)\<rparr>))
     = qreg this"
  by (simp add: compute_probability_state compute_probability_body_this)

section \<open>Claims about the gate translator\<close>

text \<open>
  C9. For an operation that names at least one qubit and whose name is not in the
  table of gates, \<^verbatim>\<open>apply_gate\<close> fails with an invalid-argument error whose message
  carries the name, and the state after the call is the state before it. (With no
  qubit the trace at the entry reads outside the list before the name is looked up.)
\<close>

theorem unknown_gate_fails:
  assumes "gateset (name oper) = None" and "qubits oper \<noteq> []"
  shows "apply_gate ops this oper =
           Some (Inl (invalid_argument
                       (''Compute::State: Invalid gate operation '' @ [CHR 0x27] @ name oper
                          @ [CHR 0x27] @ ''.'')), this)"
  using assms by (simp add: apply_gate_def)

theorem unknown_gate_fails_witness:
  "gateset (name \<lparr>name = ''ccx'', qubits = [0, 1, 2]\<rparr>) = None \<and>
   qubits \<lparr>name = ''ccx'', qubits = [0, 1, 2]\<rparr> \<noteq> [] \<and>
   apply_gate (idle_ops True 0) \<lparr>qreg = one_plain_qubit, num_code_qubits = 1\<rparr>
       \<lparr>name = ''ccx'', qubits = [0, 1, 2]\<rparr>
     = Some (Inl (invalid_argument
                   (''Compute::State: Invalid gate operation '' @ [CHR 0x27] @ ''ccx''
                      @ [CHR 0x27] @ ''.'')),
             \<lparr>qreg = one_plain_qubit, num_code_qubits = 1\<rparr>)"
proof -
  have h: "gateset (name \<lparr>name = ''ccx'', qubits = [0, 1, 2]\<rparr>) = None"
    by (simp add: gateset_def)
  have q: "qubits \<lparr>name = ''ccx'', qubits = [0, 1, 2]\<rparr> \<noteq> []" by simp
  from unknown_gate_fails [OF h q] h q show ?thesis by simp
qed

text \<open>
  C10, as claimed: every gate name of the table of gates is listed in the advertised
  set. The name \<open>tdg\<close> is in the table and not in the advertised set.
\<close>

theorem tdg_not_advertised:
  "gateset ''tdg'' = Some Gates_tdg \<and> ''tdg'' \<notin> set StateOpSet_gates"
  by (simp add: gateset_def StateOpSet_gates_def)

text \<open>
  C10, amended. Every gate name of the advertised set is in the table of gates, and
  the table has exactly three further names, \<open>delay\<close>, \<open>tdg\<close> and \<open>CZ\<close>, which the
  advertised set does not list.
\<close>

theorem advertised_gates_accepted:
  "dom gateset = set StateOpSet_gates \<union> {''delay'', ''tdg'', ''CZ''} \<and>
   set StateOpSet_gates \<inter> {''delay'', ''tdg'', ''CZ''} = {}"
  by (auto simp: gateset_def StateOpSet_gates_def dom_def split: if_splits)

end
